theory Spec2Isabelle
  imports Complex_Main
begin

section \<open>Deposit bonus settings: data model\<close>

text \<open>
  The development follows \<^verbatim>\<open>src/models/BonusSettings.js\<close>: the mongoose schema
  \<^verbatim>\<open>bonusSettingsSchema\<close> with its methods, and the admin routes that edit the
  settings document, its tiers and the users' bonus balances.

  A JavaScript \<^verbatim>\<open>Number\<close> is modelled by an exact rational: every deposit,
  percentage, cap and balance is a finite value, and the arithmetic of the source
  (\<^verbatim>\<open>*\<close>, \<^verbatim>\<open>/\<close>, \<^verbatim>\<open>+\<close>, comparisons) is read without the rounding error of
  binary floating point. Request bodies are typed: a field that the source reads as a
  number is a rational here, a field that may be absent (\<^verbatim>\<open>undefined\<close>) is an option.

  One property depends on that rounding error: how \<^verbatim>\<open>calculateBonus\<close> rounds at the
  hundredths place. For it the arithmetic of lines 132 and 139 is evaluated a second
  time, in IEEE 754 double precision (section \<open>calculateBonus in binary64\<close>): every
  product and quotient is rounded to the nearest double, a tie going to the even
  significand.
\<close>

type_synonym adminId = nat

text \<open>One element of \<^verbatim>\<open>bonusTiers\<close> (schema lines 63-82).\<close>

record bonusTier =
  minDeposit :: rat
  maxDeposit :: rat
  bonusPercent :: rat
  isActive :: bool

text \<open>The settings document (schema lines 3-93).\<close>

record bonusSettings =
  isEnabled :: bool
  regularBonusPercent :: rat
  firstDepositBonusPercent :: rat
  firstDepositBonusEnabled :: bool
  minDepositForBonus :: rat
  maxBonusAmount :: rat
  bonusWithdrawable :: bool
  withdrawalVolumeMultiplier :: rat
  bonusExpiryDays :: rat
  bonusTiers :: "bonusTier list"
  useTierBonus :: bool
  updatedBy :: "adminId option"

text \<open>The document that \<^verbatim>\<open>create({})\<close> builds from the schema's defaults.\<close>

definition default_settings :: bonusSettings where
  "default_settings =
     \<lparr> isEnabled = True,
       regularBonusPercent = 0,
       firstDepositBonusPercent = 0,
       firstDepositBonusEnabled = False,
       minDepositForBonus = 100,
       maxBonusAmount = 0,
       bonusWithdrawable = False,
       withdrawalVolumeMultiplier = 3,
       bonusExpiryDays = 30,
       bonusTiers = [],
       useTierBonus = False,
       updatedBy = None \<rparr>"

text \<open>
  The validators that the schema declares (\<^verbatim>\<open>min: 0, max: 100\<close> on the three
  percentages) and that \<^verbatim>\<open>save()\<close> runs on the document.
\<close>

definition percent_ok :: "rat \<Rightarrow> bool" where
  "percent_ok p = (0 \<le> p \<and> p \<le> 100)"

definition schema_valid :: "bonusSettings \<Rightarrow> bool" where
  "schema_valid settings =
     (percent_ok (regularBonusPercent settings) \<and>
      percent_ok (firstDepositBonusPercent settings) \<and>
      list_all (\<lambda>tier. percent_ok (bonusPercent tier)) (bonusTiers settings))"

section \<open>The settings collection\<close>

text \<open>
  The collection holds at most one document. \<^verbatim>\<open>getSettings\<close> (lines 99-105)
  returns the stored document, or creates the default one and stores it.
\<close>

type_synonym settingsStore = "bonusSettings option"

definition getSettings :: "settingsStore \<Rightarrow> bonusSettings \<times> settingsStore" where
  "getSettings store =
     (case store of
        Some settings \<Rightarrow> (settings, store)
      | None \<Rightarrow> (default_settings, Some default_settings))"

section \<open>calculateBonus\<close>

text \<open>\<^verbatim>\<open>Math.round\<close>: the nearest integer, a tie going to the larger one.\<close>

definition Math_round :: "rat \<Rightarrow> int" where
  "Math_round x = \<lfloor>x + 1 / 2\<rfloor>"

text \<open>Lines 112-130: the percentage that applies to a deposit.\<close>

definition applicableTier :: "bonusSettings \<Rightarrow> rat \<Rightarrow> bonusTier option" where
  "applicableTier settings depositAmount =
     find (\<lambda>tier. isActive tier \<and>
                   depositAmount \<ge> minDeposit tier \<and>
                   depositAmount \<le> maxDeposit tier)
          (bonusTiers settings)"

definition selectBonusPercent :: "bonusSettings \<Rightarrow> rat \<Rightarrow> bool \<Rightarrow> rat" where
  "selectBonusPercent settings depositAmount isFirstDeposit =
     (if isFirstDeposit \<and> firstDepositBonusEnabled settings then
        firstDepositBonusPercent settings
      else if useTierBonus settings \<and> length (bonusTiers settings) > 0 then
        (case applicableTier settings depositAmount of
           Some tier \<Rightarrow> bonusPercent tier
         | None \<Rightarrow> 0)
      else regularBonusPercent settings)"

text \<open>Lines 135-137: the cap, applied when it is set.\<close>

definition applyMaxCap :: "bonusSettings \<Rightarrow> rat \<Rightarrow> rat" where
  "applyMaxCap settings bonusAmount =
     (if maxBonusAmount settings > 0 \<and> bonusAmount > maxBonusAmount settings
      then maxBonusAmount settings
      else bonusAmount)"

text \<open>Line 139: \<^verbatim>\<open>Math.round(bonusAmount * 100) / 100\<close>.\<close>

definition roundTo2 :: "rat \<Rightarrow> rat" where
  "roundTo2 bonusAmount = of_int (Math_round (bonusAmount * 100)) / 100"

text \<open>Lines 108-140.\<close>

definition calculateBonus :: "bonusSettings \<Rightarrow> rat \<Rightarrow> bool \<Rightarrow> rat" where
  "calculateBonus settings depositAmount isFirstDeposit =
     (if \<not> isEnabled settings then 0
      else if depositAmount < minDepositForBonus settings then 0
      else
        let bonusPct = selectBonusPercent settings depositAmount isFirstDeposit;
            bonusAmount = (depositAmount * bonusPct) / 100
        in roundTo2 (applyMaxCap settings bonusAmount))"

text \<open>
  Rounding at the hundredths place as the specification words it: half away from zero.
  This definition follows the specification, not the source; it is what
  \<open>roundTo2\<close> is compared with.
\<close>

definition round_half_away_from_zero :: "rat \<Rightarrow> int" where
  "round_half_away_from_zero x = (if 0 \<le> x then \<lfloor>x + 1 / 2\<rfloor> else \<lceil>x - 1 / 2\<rceil>)"

definition spec_round_hundredths :: "rat \<Rightarrow> rat" where
  "spec_round_hundredths x = of_int (round_half_away_from_zero (x * 100)) / 100"

section \<open>calculateBonus in binary64\<close>

text \<open>
  A finite double is a rational \<open>k * 2 ^ e\<close> with \<open>\<bar>k\<bar> < 2 ^ 53\<close> and
  \<open>- 1074 \<le> e\<close>. \<open>fl x\<close> is the double nearest to the rational \<open>x\<close>: the magnitude
  of \<open>x\<close> is scaled by powers of two until it lies in \<open>[2 ^ 52, 2 ^ 53)\<close>, or until
  the least exponent \<open>- 1074\<close> is reached (a subnormal), and is rounded there to the
  nearest integer, a tie going to the even one. Magnitudes that would overflow to
  \<^verbatim>\<open>Infinity\<close> (\<open>2 ^ 1024\<close> and above) are outside the model.
\<close>

definition round_half_even :: "rat \<Rightarrow> int" where
  "round_half_even y =
     (let f = \<lfloor>y\<rfloor>; r = y - of_int f
      in if r < 1 / 2 then f
         else if 1 / 2 < r then f + 1
         else if even f then f else f + 1)"

text \<open>The first argument bounds the number of scaling steps; 2200 covers every double.\<close>

fun normalise :: "nat \<Rightarrow> rat \<Rightarrow> int \<Rightarrow> rat \<times> int" where
  "normalise 0 m e = (m, e)"
| "normalise (Suc fuel) m e =
     (if 2 ^ 53 \<le> m then normalise fuel (m / 2) (e + 1)
      else if m < 2 ^ 52 \<and> - 1074 < e then normalise fuel (m * 2) (e - 1)
      else (m, e))"

definition pow2 :: "int \<Rightarrow> rat" where
  "pow2 e = (if 0 \<le> e then 2 ^ nat e else 1 / 2 ^ nat (- e))"

definition fl :: "rat \<Rightarrow> rat" where
  "fl x =
     (if x = 0 then 0
      else let (m, e) = normalise 2200 \<bar>x\<bar> 0
           in sgn x * of_int (round_half_even m) * pow2 e)"

text \<open>
  Line 139 in binary64: the product \<^verbatim>\<open>bonusAmount * 100\<close> is rounded to a double,
  \<^verbatim>\<open>Math.round\<close> is exact on that double, and the quotient by 100 is rounded again.
\<close>

definition roundTo2_f64 :: "rat \<Rightarrow> rat" where
  "roundTo2_f64 bonusAmount = fl (of_int (Math_round (fl (bonusAmount * 100))) / 100)"

text \<open>
  Lines 108-140 in binary64, for a deposit and settings whose numbers are doubles. The
  comparisons and the choice of the percentage are exact; line 132 rounds the product
  and then the quotient.
\<close>

definition calculateBonus_f64 :: "bonusSettings \<Rightarrow> rat \<Rightarrow> bool \<Rightarrow> rat" where
  "calculateBonus_f64 settings depositAmount isFirstDeposit =
     (if \<not> isEnabled settings then 0
      else if depositAmount < minDepositForBonus settings then 0
      else
        let bonusPct = selectBonusPercent settings depositAmount isFirstDeposit;
            bonusAmount = fl (fl (depositAmount * bonusPct) / 100)
        in roundTo2_f64 (applyMaxCap settings bonusAmount))"

text \<open>The same rounding with ties to even, as the specification's alternative wording.\<close>

definition spec_round_hundredths_even :: "rat \<Rightarrow> rat" where
  "spec_round_hundredths_even x = of_int (round_half_even (x * 100)) / 100"

section \<open>The admin routes\<close>

text \<open>
  A route returns its response and the collection as it leaves it. The error responses
  are named as the specification names them:
  \<^item> \<open>ValidationError\<close>: 400 with the validator's error list;
  \<^item> \<open>RangeError\<close>: 400, \<^verbatim>\<open>Min deposit must be less than max deposit\<close>;
  \<^item> \<open>OverlapError\<close>: 400, \<^verbatim>\<open>Tier range overlaps with existing tier\<close>;
  \<^item> \<open>NotFoundError\<close>: 404;
  \<^item> \<open>NegativeBalanceError\<close>: 400,
    \<^verbatim>\<open>Adjustment would result in negative bonus balance\<close>;
  \<^item> \<open>ServerError\<close>: 500, the \<^verbatim>\<open>catch\<close> branch of a handler.
\<close>

datatype error =
    ValidationError
  | RangeError
  | OverlapError
  | NotFoundError
  | NegativeBalanceError
  | ServerError

text \<open>
  \<^verbatim>\<open>settings.save()\<close>: the document is validated against the schema; a document
  that fails throws, the handler answers 500 and the collection keeps what it had.
\<close>

definition save :: "bonusSettings \<Rightarrow> settingsStore \<Rightarrow> (error + bonusSettings) \<times> settingsStore" where
  "save settings store =
     (if schema_valid settings then (Inr settings, Some settings)
      else (Inl ServerError, store))"

subsection \<open>PUT /settings (lines 170-210)\<close>

record settingsBody =
  body_isEnabled :: "bool option"
  body_regularBonusPercent :: "rat option"
  body_firstDepositBonusPercent :: "rat option"
  body_firstDepositBonusEnabled :: "bool option"
  body_minDepositForBonus :: "rat option"
  body_maxBonusAmount :: "rat option"
  body_bonusWithdrawable :: "bool option"
  body_withdrawalVolumeMultiplier :: "rat option"
  body_bonusExpiryDays :: "rat option"
  body_useTierBonus :: "bool option"

text \<open>\<^verbatim>\<open>if (x !== undefined) settings.f = x\<close>: the field's value after the statement.\<close>

definition assignDefined :: "'a option \<Rightarrow> 'a \<Rightarrow> 'a" where
  "assignDefined x prior = (case x of None \<Rightarrow> prior | Some v \<Rightarrow> v)"

definition put_settings ::
  "adminId \<Rightarrow> settingsBody \<Rightarrow> settingsStore \<Rightarrow> (error + bonusSettings) \<times> settingsStore" where
  "put_settings admin body store =
     (let (settings, store1) = getSettings store;
          settings' = settings
            \<lparr> isEnabled := assignDefined (body_isEnabled body) (isEnabled settings),
              regularBonusPercent :=
                assignDefined (body_regularBonusPercent body) (regularBonusPercent settings),
              firstDepositBonusPercent :=
                assignDefined (body_firstDepositBonusPercent body) (firstDepositBonusPercent settings),
              firstDepositBonusEnabled :=
                assignDefined (body_firstDepositBonusEnabled body) (firstDepositBonusEnabled settings),
              minDepositForBonus :=
                assignDefined (body_minDepositForBonus body) (minDepositForBonus settings),
              maxBonusAmount :=
                assignDefined (body_maxBonusAmount body) (maxBonusAmount settings),
              bonusWithdrawable :=
                assignDefined (body_bonusWithdrawable body) (bonusWithdrawable settings),
              withdrawalVolumeMultiplier :=
                assignDefined (body_withdrawalVolumeMultiplier body) (withdrawalVolumeMultiplier settings),
              bonusExpiryDays :=
                assignDefined (body_bonusExpiryDays body) (bonusExpiryDays settings),
              useTierBonus := assignDefined (body_useTierBonus body) (useTierBonus settings),
              updatedBy := Some admin \<rparr>
      in save settings' store1)"

subsection \<open>POST /tiers (lines 215-270)\<close>

record tierBody =
  body_minDeposit :: rat
  body_maxDeposit :: rat
  body_bonusPercent :: rat

text \<open>The three \<^verbatim>\<open>isFloat\<close> validators of the route (lines 216-218).\<close>

definition tierBody_valid :: "tierBody \<Rightarrow> bool" where
  "tierBody_valid body =
     (0 \<le> body_minDeposit body \<and> 0 \<le> body_maxDeposit body \<and>
      0 \<le> body_bonusPercent body \<and> body_bonusPercent body \<le> 100)"

text \<open>Lines 238-242.\<close>

definition hasOverlap :: "rat \<Rightarrow> rat \<Rightarrow> bonusTier list \<Rightarrow> bool" where
  "hasOverlap minD maxD tiers =
     list_ex (\<lambda>tier.
        (minD \<ge> minDeposit tier \<and> minD \<le> maxDeposit tier) \<or>
        (maxD \<ge> minDeposit tier \<and> maxD \<le> maxDeposit tier) \<or>
        (minD \<le> minDeposit tier \<and> maxD \<ge> maxDeposit tier)) tiers"

definition post_tiers ::
  "adminId \<Rightarrow> tierBody \<Rightarrow> settingsStore \<Rightarrow> (error + bonusSettings) \<times> settingsStore" where
  "post_tiers admin body store =
     (if \<not> tierBody_valid body then (Inl ValidationError, store)
      else if body_minDeposit body \<ge> body_maxDeposit body then (Inl RangeError, store)
      else
        let (settings, store1) = getSettings store in
        if hasOverlap (body_minDeposit body) (body_maxDeposit body) (bonusTiers settings)
        then (Inl OverlapError, store1)
        else
          save (settings
                 \<lparr> bonusTiers := bonusTiers settings @
                     [\<lparr> minDeposit = body_minDeposit body,
                        maxDeposit = body_maxDeposit body,
                        bonusPercent = body_bonusPercent body,
                        isActive = True \<rparr>],
                   updatedBy := Some admin \<rparr>) store1)"

subsection \<open>PUT /users/:userId/adjust (lines 397-455)\<close>







section \<open>Example documents\<close>

text \<open>The flat 10 percent configuration, uncapped.\<close>

definition flat_settings :: bonusSettings where
  "flat_settings = default_settings\<lparr>regularBonusPercent := 10\<rparr>"

text \<open>A cap with three decimal places: 99.999.\<close>

definition capped_settings :: bonusSettings where
  "capped_settings = flat_settings\<lparr>maxBonusAmount := 99999 / 1000\<rparr>"

text \<open>
  Tiered configuration: an inactive tier first, then two active tiers that share the
  bound 1000; the flat rate is 3 percent and the first-deposit rate 20 percent.
\<close>

definition tiered_settings :: bonusSettings where
  "tiered_settings = default_settings
     \<lparr> regularBonusPercent := 3,
       firstDepositBonusPercent := 20,
       firstDepositBonusEnabled := True,
       bonusTiers :=
         [\<lparr>minDeposit = 0, maxDeposit = 1000, bonusPercent = 5, isActive = False\<rparr>,
          \<lparr>minDeposit = 0, maxDeposit = 1000, bonusPercent = 7, isActive = True\<rparr>,
          \<lparr>minDeposit = 1000, maxDeposit = 5000, bonusPercent = 10, isActive = True\<rparr>],
       useTierBonus := True \<rparr>"

text \<open>
  The two tiers [0,50] and [100,200], and the request for the tier [50,100] that
  touches both.
\<close>

definition boundary_store :: settingsStore where
  "boundary_store = Some (default_settings
     \<lparr> bonusTiers :=
         [\<lparr>minDeposit = 0, maxDeposit = 50, bonusPercent = 5, isActive = True\<rparr>,
          \<lparr>minDeposit = 100, maxDeposit = 200, bonusPercent = 10, isActive = True\<rparr>] \<rparr>)"

definition boundary_body :: tierBody where
  "boundary_body = \<lparr>body_minDeposit = 50, body_maxDeposit = 100, body_bonusPercent = 7\<rparr>"

text \<open>One inactive tier [0,50], and the request for the tier [40,60].\<close>

definition inactive_store :: settingsStore where
  "inactive_store = Some (default_settings
     \<lparr> bonusTiers :=
         [\<lparr>minDeposit = 0, maxDeposit = 50, bonusPercent = 5, isActive = False\<rparr>] \<rparr>)"

definition crossing_body :: tierBody where
  "crossing_body = \<lparr>body_minDeposit = 40, body_maxDeposit = 60, body_bonusPercent = 7\<rparr>"


text \<open>A request that sets two of the ten scalar fields.\<close>

definition partial_body :: settingsBody where
  "partial_body =
     \<lparr> body_isEnabled = Some False,
       body_regularBonusPercent = Some 12,
       body_firstDepositBonusPercent = None,
       body_firstDepositBonusEnabled = None,
       body_minDepositForBonus = None,
       body_maxBonusAmount = None,
       body_bonusWithdrawable = None,
       body_withdrawalVolumeMultiplier = None,
       body_bonusExpiryDays = None,
       body_useTierBonus = None \<rparr>"

section \<open>Properties of calculateBonus\<close>

lemma floor_numeral_div_rat: "\<lfloor>numeral a / numeral b :: rat\<rfloor> = numeral a div numeral b"
  using floor_divide_of_int_eq [of "numeral a" "numeral b", where ?'a = rat] by simp

lemma floor_one_div_rat: "\<lfloor>1 / numeral b :: rat\<rfloor> = 1 div numeral b"
  using floor_divide_of_int_eq [of 1 "numeral b", where ?'a = rat] by simp

lemma roundTo2_zero: "roundTo2 0 = 0"
  by (simp add: roundTo2_def Math_round_def floor_one_div_rat)

lemma applyMaxCap_zero: "applyMaxCap settings 0 = 0"
  by (simp add: applyMaxCap_def)

text \<open>
  C7. With \<^verbatim>\<open>isEnabled\<close> false the bonus is 0 for every amount and flag, and with
  \<^verbatim>\<open>isEnabled\<close> true it is 0 for every amount strictly below
  \<^verbatim>\<open>minDepositForBonus\<close>.
\<close>

theorem calculateBonus_disabled_or_below_min:
  "(\<not> isEnabled settings \<longrightarrow> calculateBonus settings depositAmount isFirstDeposit = 0) \<and>
   (isEnabled settings \<and> depositAmount < minDepositForBonus settings \<longrightarrow>
      calculateBonus settings depositAmount isFirstDeposit = 0)"
  by (simp add: calculateBonus_def)

theorem calculateBonus_disabled_or_below_min_witness:
  "\<not> isEnabled (flat_settings\<lparr>isEnabled := False\<rparr>) \<and>
   calculateBonus (flat_settings\<lparr>isEnabled := False\<rparr>) 500 True = 0 \<and>
   isEnabled flat_settings \<and> (99 :: rat) < minDepositForBonus flat_settings \<and>
   calculateBonus flat_settings 99 False = 0"
  using calculateBonus_disabled_or_below_min [of "flat_settings\<lparr>isEnabled := False\<rparr>" 500 True]
    calculateBonus_disabled_or_below_min [of flat_settings 99 False]
  by (simp add: flat_settings_def default_settings_def)

text \<open>
  C10. On the default document that \<^verbatim>\<open>getSettings\<close> creates when the collection
  is empty, the bonus is 0 for every amount and either first-deposit flag.
\<close>

theorem calculateBonus_default_zero:
  "fst (getSettings None) = default_settings \<and>
   calculateBonus (fst (getSettings None)) depositAmount isFirstDeposit = 0"
  by (simp add: getSettings_def calculateBonus_def selectBonusPercent_def default_settings_def
      applyMaxCap_zero roundTo2_zero)

text \<open>
  C1, where the code departs from the claim. The cap is applied before the rounding, so
  a cap with more than two decimal places can be rounded up past itself: with the cap
  99.999 and a flat 10 percent, a deposit of 1000 has the raw bonus 100, capped to
  99.999 and then rounded to 100.00, which is above the cap.
\<close>

theorem calculateBonus_exceeds_cap:
  "maxBonusAmount capped_settings = 99999 / 1000 \<and>
   0 < maxBonusAmount capped_settings \<and>
   calculateBonus capped_settings 1000 False = 100 \<and>
   \<not> calculateBonus capped_settings 1000 False \<le> maxBonusAmount capped_settings"
  by (simp add: calculateBonus_def selectBonusPercent_def applyMaxCap_def roundTo2_def
      Math_round_def capped_settings_def flat_settings_def default_settings_def
      floor_numeral_div_rat)

text \<open>
  What does hold of the cap: the amount that is rounded is at most the cap, so the
  result is at most the cap rounded to hundredths, and at most the cap itself when the
  cap is a whole number of hundredths.
\<close>

lemma applyMaxCap_le: "0 < maxBonusAmount settings \<Longrightarrow> applyMaxCap settings x \<le> maxBonusAmount settings"
  by (simp add: applyMaxCap_def)

lemma roundTo2_mono: "x \<le> y \<Longrightarrow> roundTo2 x \<le> roundTo2 y"
  by (simp add: roundTo2_def Math_round_def floor_mono divide_right_mono)

lemma roundTo2_of_hundredths: "roundTo2 (of_int k / 100) = of_int k / 100"
  by (simp add: roundTo2_def Math_round_def floor_one_div_rat)

lemma calculateBonus_le_rounded_cap:
  assumes "0 < maxBonusAmount settings"
  shows "calculateBonus settings d isFirstDeposit \<le> roundTo2 (maxBonusAmount settings)"
proof -
  have "0 \<le> roundTo2 (maxBonusAmount settings)"
    using roundTo2_mono [of 0 "maxBonusAmount settings"] assms by (simp add: roundTo2_zero)
  moreover have "roundTo2 (applyMaxCap settings x) \<le> roundTo2 (maxBonusAmount settings)" for x
    using assms by (intro roundTo2_mono applyMaxCap_le)
  ultimately show ?thesis
    by (simp add: calculateBonus_def Let_def)
qed

lemma calculateBonus_le_cap_hundredths:
  assumes "0 < maxBonusAmount settings" and "maxBonusAmount settings = of_int k / 100"
  shows "calculateBonus settings d isFirstDeposit \<le> maxBonusAmount settings"
  using calculateBonus_le_rounded_cap [OF assms(1), of d isFirstDeposit]
    roundTo2_of_hundredths [of k] assms(2)
  by simp

lemma calculateBonus_le_cap_hundredths_example:
  "0 < maxBonusAmount (flat_settings\<lparr>maxBonusAmount := 30\<rparr>) \<and>
   maxBonusAmount (flat_settings\<lparr>maxBonusAmount := 30\<rparr>) = of_int 3000 / 100 \<and>
   calculateBonus (flat_settings\<lparr>maxBonusAmount := 30\<rparr>) 500 False = 30"
  using calculateBonus_le_cap_hundredths
    [where settings = "flat_settings\<lparr>maxBonusAmount := 30\<rparr>" and k = 3000
       and d = 500 and isFirstDeposit = False]
  by (simp add: calculateBonus_def selectBonusPercent_def applyMaxCap_def roundTo2_def
      Math_round_def flat_settings_def default_settings_def floor_numeral_div_rat)



section \<open>Tier lookup\<close>



lemma applicableTier_sound:
  assumes "applicableTier settings d = Some t"
  shows "t \<in> set (bonusTiers settings) \<and> isActive t \<and> minDeposit t \<le> d \<and> d \<le> maxDeposit t"
  using assms unfolding applicableTier_def find_Some_iff
  by auto




section \<open>Rounding\<close>

lemma selectBonusPercent_nonneg:
  assumes "schema_valid settings"
  shows "0 \<le> selectBonusPercent settings d isFirstDeposit"
proof (cases "applicableTier settings d")
  case None
  with assms show ?thesis
    by (simp add: selectBonusPercent_def schema_valid_def percent_ok_def)
next
  case (Some t)
  then have "t \<in> set (bonusTiers settings)"
    using applicableTier_sound by blast
  with assms have "0 \<le> bonusPercent t"
    by (simp add: schema_valid_def percent_ok_def list_all_iff)
  with assms Some show ?thesis
    by (simp add: selectBonusPercent_def schema_valid_def percent_ok_def)
qed

lemma applyMaxCap_nonneg: "0 \<le> x \<Longrightarrow> 0 \<le> applyMaxCap settings x"
  by (simp add: applyMaxCap_def)

lemma roundTo2_half_away: "0 \<le> x \<Longrightarrow> roundTo2 x = spec_round_hundredths x"
  by (simp add: roundTo2_def spec_round_hundredths_def Math_round_def
      round_half_away_from_zero_def)

lemma roundTo2_hundredths: "\<exists>k::int. roundTo2 x = of_int k / 100"
  unfolding roundTo2_def by blast

text \<open>
  In exact arithmetic, for a document that passes the schema's validators and a
  non-negative deposit, the value past the two early returns is the capped raw bonus
  rounded at the hundredths place half away from zero, and it is a whole number of
  hundredths: on a non-negative amount \<^verbatim>\<open>Math.round\<close> and half-away-from-zero
  agree. What the code returns beyond that is due to the rounding of its binary64
  products alone, which the next section evaluates.
\<close>

theorem calculateBonus_rounds_half_away:
  assumes "0 \<le> d" and "schema_valid settings"
  shows "calculateBonus settings d isFirstDeposit =
      (if isEnabled settings \<and> minDepositForBonus settings \<le> d
       then spec_round_hundredths
              (applyMaxCap settings (d * selectBonusPercent settings d isFirstDeposit / 100))
       else 0) \<and>
    (\<exists>k::int. calculateBonus settings d isFirstDeposit = of_int k / 100)"
proof -
  have "0 \<le> d * selectBonusPercent settings d isFirstDeposit / 100"
    using assms selectBonusPercent_nonneg [of settings d isFirstDeposit] by simp
  then have "0 \<le> applyMaxCap settings (d * selectBonusPercent settings d isFirstDeposit / 100)"
    by (rule applyMaxCap_nonneg)
  then have eq: "roundTo2 (applyMaxCap settings (d * selectBonusPercent settings d isFirstDeposit / 100))
      = spec_round_hundredths
          (applyMaxCap settings (d * selectBonusPercent settings d isFirstDeposit / 100))"
    by (rule roundTo2_half_away)
  have first: "calculateBonus settings d isFirstDeposit =
      (if isEnabled settings \<and> minDepositForBonus settings \<le> d
       then spec_round_hundredths
              (applyMaxCap settings (d * selectBonusPercent settings d isFirstDeposit / 100))
       else 0)"
    using eq by (simp add: calculateBonus_def Let_def not_less)
  have second: "\<exists>k::int. calculateBonus settings d isFirstDeposit = of_int k / 100"
  proof (cases "isEnabled settings \<and> minDepositForBonus settings \<le> d")
    case True
    then show ?thesis
      using roundTo2_hundredths
      by (simp add: calculateBonus_def Let_def not_less)
  next
    case False
    then have "calculateBonus settings d isFirstDeposit = of_int 0 / 100"
      by (auto simp add: calculateBonus_def)
    then show ?thesis by blast
  qed
  from first second show ?thesis by simp
qed

text \<open>A tie at the third decimal in exact arithmetic: 5 percent of 100.50 is 5.025,
  rounded to 5.03.\<close>

theorem calculateBonus_rounds_half_away_witness:
  "(0 :: rat) \<le> 201 / 2 \<and> schema_valid (flat_settings\<lparr>regularBonusPercent := 5\<rparr>) \<and>
   (201 / 2) * 5 / 100 = (5025 / 1000 :: rat) \<and>
   spec_round_hundredths (5025 / 1000) = 503 / 100 \<and>
   calculateBonus (flat_settings\<lparr>regularBonusPercent := 5\<rparr>) (201 / 2) False = 503 / 100"
  using calculateBonus_rounds_half_away
    [of "201 / 2" "flat_settings\<lparr>regularBonusPercent := 5\<rparr>" False]
  by (simp add: flat_settings_def default_settings_def schema_valid_def percent_ok_def
      selectBonusPercent_def applyMaxCap_def spec_round_hundredths_def
      round_half_away_from_zero_def floor_numeral_div_rat)

section \<open>Rounding in binary64\<close>

lemma normalise_scale_up:
  assumes "2 ^ 52 \<le> m * 2 ^ k" and "m * 2 ^ k < 2 ^ 53"
    and "k \<le> fuel" and "- 1074 \<le> e - int k"
  shows "normalise fuel m e = (m * 2 ^ k, e - int k)"
  using assms
proof (induction k arbitrary: m e fuel)
  case 0
  then show ?case by (cases fuel) simp_all
next
  case (Suc k)
  from Suc.prems(3) obtain fuel' where fuel: "fuel = Suc fuel'" and k: "k \<le> fuel'"
    by (cases fuel) simp_all
  from Suc.prems(1) have "0 < m * 2 ^ Suc k"
    by (rule less_le_trans [rotated]) simp
  then have pos: "0 < m"
    by (simp add: zero_less_mult_iff)
  have "m * 1 \<le> m * 2 ^ k"
    using pos by (intro mult_left_mono) simp_all
  moreover from Suc.prems(2) have "m * 2 ^ k < 2 ^ 52"
    by simp
  ultimately have small: "m < 2 ^ 52"
    by simp
  from Suc.prems(4) have e: "- 1074 < e" by simp
  have step: "normalise fuel m e = normalise fuel' (m * 2) (e - 1)"
    using small e by (simp add: fuel)
  have "normalise fuel' (m * 2) (e - 1) = (m * 2 * 2 ^ k, e - 1 - int k)"
    using Suc.prems k by (intro Suc.IH) (simp_all add: mult.assoc)
  with step show ?case by (simp add: mult.assoc)
qed

text \<open>
  A positive \<open>x\<close> below \<open>2 ^ 53\<close> that \<open>k\<close> doublings bring into
  \<open>[2 ^ 52, 2 ^ 53)\<close> is rounded on the grid of spacing \<open>2 ^ - k\<close>.
\<close>

lemma fl_scale_up:
  assumes "round_half_even (x * 2 ^ k) = n"
    and "0 < x" and "2 ^ 52 \<le> x * 2 ^ k" and "x * 2 ^ k < 2 ^ 53" and "k \<le> 1074"
  shows "fl x = of_int n / 2 ^ k"
proof -
  have "normalise 2200 x 0 = (x * 2 ^ k, 0 - int k)"
    using assms(3,4,5) by (intro normalise_scale_up) simp_all
  with assms(1,2) show ?thesis
    by (simp add: fl_def pow2_def)
qed

text \<open>A known value as a check of \<open>fl\<close>: the double 0.1 is 0x3FB999999999999A.\<close>

lemma fl_one_tenth: "fl (1 / 10) = 7205759403792794 / 2 ^ 56"
proof -
  have "round_half_even (1 / 10 * 2 ^ 56) = 7205759403792794"
    by (simp add: round_half_even_def Let_def floor_numeral_div_rat)
  then have "fl (1 / 10) = of_int 7205759403792794 / 2 ^ 56"
    by (intro fl_scale_up) simp_all
  then show ?thesis by simp
qed

text \<open>Deposit 100.5 at 1 percent.\<close>

lemma fl_deposit_a: "fl (201 / 2 * 1) = 201 / 2"
proof -
  have "round_half_even (201 / 2 * 1 * 2 ^ 46) = 7072058789855232"
    by (simp add: round_half_even_def Let_def floor_numeral_div_rat)
  then have "fl (201 / 2 * 1) = of_int 7072058789855232 / 2 ^ 46"
    by (intro fl_scale_up) simp_all
  then show ?thesis by simp
qed

lemma fl_raw_a: "fl (201 / 2 / 100) = 4526117625507348 / 2 ^ 52"
proof -
  have "round_half_even (201 / 2 / 100 * 2 ^ 52) = 4526117625507348"
    by (simp add: round_half_even_def Let_def floor_numeral_div_rat)
  then have "fl (201 / 2 / 100) = of_int 4526117625507348 / 2 ^ 52"
    by (intro fl_scale_up) simp_all
  then show ?thesis by simp
qed

lemma fl_scaled_a: "fl (4526117625507348 / 2 ^ 52 * 100) = 7072058789855231 / 2 ^ 46"
proof -
  have "round_half_even (4526117625507348 / 2 ^ 52 * 100 * 2 ^ 46) = 7072058789855231"
    by (simp add: round_half_even_def Let_def floor_numeral_div_rat)
  then have "fl (4526117625507348 / 2 ^ 52 * 100) = of_int 7072058789855231 / 2 ^ 46"
    by (intro fl_scale_up) simp_all
  then show ?thesis by simp
qed

lemma fl_result_a: "fl (of_int 100 / 100) = 1"
proof -
  have "round_half_even (of_int 100 / 100 * 2 ^ 52) = 4503599627370496"
    by (simp add: round_half_even_def Let_def floor_numeral_div_rat)
  then have "fl (of_int 100 / 100) = of_int 4503599627370496 / 2 ^ 52"
    by (intro fl_scale_up) simp_all
  then show ?thesis by simp
qed

text \<open>Deposit 100.25 at 2 percent.\<close>

lemma fl_deposit_b: "fl (401 / 4 * 2) = 401 / 2"
proof -
  have "round_half_even (401 / 4 * 2 * 2 ^ 45) = 7054466603810816"
    by (simp add: round_half_even_def Let_def floor_numeral_div_rat)
  then have "fl (401 / 4 * 2) = of_int 7054466603810816 / 2 ^ 45"
    by (intro fl_scale_up) simp_all
  then show ?thesis by simp
qed

lemma fl_raw_b: "fl (401 / 2 / 100) = 4514858626438922 / 2 ^ 51"
proof -
  have "round_half_even (401 / 2 / 100 * 2 ^ 51) = 4514858626438922"
    by (simp add: round_half_even_def Let_def floor_numeral_div_rat)
  then have "fl (401 / 2 / 100) = of_int 4514858626438922 / 2 ^ 51"
    by (intro fl_scale_up) simp_all
  then show ?thesis by simp
qed

lemma fl_scaled_b: "fl (4514858626438922 / 2 ^ 51 * 100) = 401 / 2"
proof -
  have "round_half_even (4514858626438922 / 2 ^ 51 * 100 * 2 ^ 45) = 7054466603810816"
    by (simp add: round_half_even_def Let_def floor_numeral_div_rat)
  then have "fl (4514858626438922 / 2 ^ 51 * 100) = of_int 7054466603810816 / 2 ^ 45"
    by (intro fl_scale_up) simp_all
  then show ?thesis by simp
qed

lemma fl_result_b: "fl (of_int 201 / 100) = 4526117625507348 / 2 ^ 51"
proof -
  have "round_half_even (of_int 201 / 100 * 2 ^ 51) = 4526117625507348"
    by (simp add: round_half_even_def Let_def floor_numeral_div_rat)
  then have "fl (of_int 201 / 100) = of_int 4526117625507348 / 2 ^ 51"
    by (intro fl_scale_up) simp_all
  then show ?thesis by simp
qed

lemma fl_1_01: "fl (101 / 100) = 4548635623644201 / 2 ^ 52"
proof -
  have "round_half_even (101 / 100 * 2 ^ 52) = 4548635623644201"
    by (simp add: round_half_even_def Let_def floor_numeral_div_rat)
  then have "fl (101 / 100) = of_int 4548635623644201 / 2 ^ 52"
    by (intro fl_scale_up) simp_all
  then show ?thesis by simp
qed

lemma calculateBonus_f64_a:
  "calculateBonus_f64 (flat_settings\<lparr>regularBonusPercent := 1\<rparr>) (201 / 2) False = 1"
proof -
  let ?s = "flat_settings\<lparr>regularBonusPercent := 1\<rparr>"
  have sel: "selectBonusPercent ?s (201 / 2) False = 1"
    by (simp add: selectBonusPercent_def flat_settings_def default_settings_def)
  have cap: "applyMaxCap ?s x = x" for x
    by (simp add: applyMaxCap_def flat_settings_def default_settings_def)
  have "calculateBonus_f64 ?s (201 / 2) False = roundTo2_f64 (fl (fl (201 / 2 * 1) / 100))"
    unfolding calculateBonus_f64_def Let_def sel cap
    by (simp add: flat_settings_def default_settings_def)
  also have "\<dots> = roundTo2_f64 (4526117625507348 / 2 ^ 52)"
    by (simp only: fl_deposit_a fl_raw_a)
  also have "\<dots> = fl (of_int (Math_round (7072058789855231 / 2 ^ 46)) / 100)"
    unfolding roundTo2_f64_def by (simp only: fl_scaled_a)
  also have "Math_round (7072058789855231 / 2 ^ 46) = 100"
    by (simp add: Math_round_def floor_numeral_div_rat)
  also have "fl (of_int 100 / 100) = 1"
    by (rule fl_result_a)
  finally show ?thesis .
qed

lemma calculateBonus_f64_b:
  "calculateBonus_f64 (flat_settings\<lparr>regularBonusPercent := 2\<rparr>) (401 / 4) False = 4526117625507348 / 2 ^ 51"
proof -
  let ?s = "flat_settings\<lparr>regularBonusPercent := 2\<rparr>"
  have sel: "selectBonusPercent ?s (401 / 4) False = 2"
    by (simp add: selectBonusPercent_def flat_settings_def default_settings_def)
  have cap: "applyMaxCap ?s x = x" for x
    by (simp add: applyMaxCap_def flat_settings_def default_settings_def)
  have "calculateBonus_f64 ?s (401 / 4) False = roundTo2_f64 (fl (fl (401 / 4 * 2) / 100))"
    unfolding calculateBonus_f64_def Let_def sel cap
    by (simp add: flat_settings_def default_settings_def)
  also have "\<dots> = roundTo2_f64 (4514858626438922 / 2 ^ 51)"
    by (simp only: fl_deposit_b fl_raw_b)
  also have "\<dots> = fl (of_int (Math_round (401 / 2)) / 100)"
    unfolding roundTo2_f64_def by (simp only: fl_scaled_b)
  also have "Math_round (401 / 2) = 201"
    by (simp add: Math_round_def floor_numeral_div_rat)
  also have "fl (of_int 201 / 100) = 4526117625507348 / 2 ^ 51"
    by (rule fl_result_b)
  finally show ?thesis .
qed

text \<open>
  C4, where the code departs from the claim. Line 139 rounds the binary64 product
  \<^verbatim>\<open>bonusAmount * 100\<close>, not the bonus, so the result is not the bonus rounded half
  away from zero at the hundredths place.
  \<^item> Deposit 100.5 at 1 percent: the bonus is 1.005, which rounds half away from zero to
    1.01 (the double \<open>4548635623644201 / 2 ^ 52\<close>). The code computes the raw bonus
    \<open>4526117625507348 / 2 ^ 52\<close>, just below 1.005, its product with 100 is the double
    just below 100.5, and the code returns 1.
  \<^item> Deposit 100.25 at 2 percent: the code computes the raw bonus
    \<open>4514858626438922 / 2 ^ 51\<close>, just below 2.005, which rounds to 2.00 under either
    tie rule; its product with 100 is rounded up to the double 100.5, and the code
    returns the double of 2.01.
  \<^item> The second result is what ties-to-even forbids on the exact bonus 2.005 (2.00), the
    first is what half-away-from-zero forbids on the exact bonus 1.005 (1.01): the code
    follows neither rule.
\<close>

theorem calculateBonus_f64_not_half_away:
  "calculateBonus_f64 (flat_settings\<lparr>regularBonusPercent := 1\<rparr>) (201 / 2) False = 1 \<and>
   spec_round_hundredths (201 / 2 * 1 / 100) = 101 / 100 \<and>
   fl (101 / 100) = 4548635623644201 / 2 ^ 52 \<and>
   calculateBonus_f64 (flat_settings\<lparr>regularBonusPercent := 1\<rparr>) (201 / 2) False
     \<noteq> fl (101 / 100) \<and>
   calculateBonus_f64 (flat_settings\<lparr>regularBonusPercent := 2\<rparr>) (401 / 4) False
     = fl (201 / 100) \<and>
   fl (fl (401 / 4 * 2) / 100) = 4514858626438922 / 2 ^ 51 \<and>
   4514858626438922 / 2 ^ 51 < (2005 / 1000 :: rat) \<and>
   spec_round_hundredths (4514858626438922 / 2 ^ 51) = 2 \<and>
   fl (201 / 100) \<noteq> fl 2 \<and>
   spec_round_hundredths_even (401 / 4 * 2 / 100) = 2"
proof -
  have exact_a: "spec_round_hundredths (201 / 2 * 1 / 100) = 101 / 100"
    by (simp add: spec_round_hundredths_def round_half_away_from_zero_def floor_numeral_div_rat)
  have computed_b: "spec_round_hundredths (4514858626438922 / 2 ^ 51) = 2"
    by (simp add: spec_round_hundredths_def round_half_away_from_zero_def floor_numeral_div_rat)
  have even_b: "spec_round_hundredths_even (401 / 4 * 2 / 100) = 2"
    by (simp add: spec_round_hundredths_even_def round_half_even_def Let_def
        floor_numeral_div_rat)
  have two: "fl 2 = 2"
    using fl_scale_up [of 2 51 "2 ^ 52"]
    by (simp add: round_half_even_def Let_def)
  have result_b: "fl (201 / 100) = 4526117625507348 / 2 ^ 51"
    using fl_result_b by simp
  have raw_b: "fl (fl (401 / 4 * 2) / 100) = 4514858626438922 / 2 ^ 51"
    by (simp only: fl_deposit_b fl_raw_b)
  have below: "4514858626438922 / 2 ^ 51 < (2005 / 1000 :: rat)"
    by simp
  have ne_a: "(1 :: rat) \<noteq> 4548635623644201 / 2 ^ 52"
    by simp
  have ne_b: "(4526117625507348 / 2 ^ 51 :: rat) \<noteq> 2"
    by simp
  from exact_a computed_b even_b two result_b raw_b below ne_a ne_b
    calculateBonus_f64_a calculateBonus_f64_b fl_1_01
  show ?thesis
    by (simp only: simp_thms)
qed

section \<open>Tier admission\<close>

lemma getSettings_stored: "getSettings (Some settings) = (settings, Some settings)"
  by (simp add: getSettings_def)

lemma getSettings_snd: "snd (getSettings store) = Some (fst (getSettings store))"
  by (cases store) (simp_all add: getSettings_def)

text \<open>
  The test of lines 238-242 holds for every existing tier that the candidate's
  inclusive range shares a point with.
\<close>

lemma hasOverlap_tier:
  assumes "t \<in> set tiers"
    and "(a \<ge> minDeposit t \<and> a \<le> maxDeposit t) \<or>
         (b \<ge> minDeposit t \<and> b \<le> maxDeposit t) \<or>
         (a \<le> minDeposit t \<and> b \<ge> maxDeposit t)"
  shows "hasOverlap a b tiers"
  using assms unfolding hasOverlap_def list_ex_iff by blast

lemma hasOverlap_intersect:
  assumes "t \<in> set tiers" and "a \<le> maxDeposit t" and "minDeposit t \<le> b"
  shows "hasOverlap a b tiers"
proof -
  have "(a \<ge> minDeposit t \<and> a \<le> maxDeposit t) \<or>
        (b \<ge> minDeposit t \<and> b \<le> maxDeposit t) \<or>
        (a \<le> minDeposit t \<and> b \<ge> maxDeposit t)"
    using assms(2,3) by linarith
  with assms(1) show ?thesis
    by (rule hasOverlap_tier)
qed

lemma hasOverlap_isActive:
  "hasOverlap a b (map (\<lambda>t. t\<lparr>isActive := act t\<rparr>) tiers) = hasOverlap a b tiers"
  by (simp add: hasOverlap_def list_ex_iff)

lemma post_tiers_overlap:
  assumes "tierBody_valid body" and "body_minDeposit body < body_maxDeposit body"
    and "hasOverlap (body_minDeposit body) (body_maxDeposit body) (bonusTiers settings)"
  shows "post_tiers admin body (Some settings) = (Inl OverlapError, Some settings)"
  using assms by (simp add: post_tiers_def getSettings_stored)

text \<open>
  C2, as the code has it. The overlap test is inclusive on both sides, so a candidate
  that shares a bound with an existing tier (its \<^verbatim>\<open>minDeposit\<close> is a tier's
  \<^verbatim>\<open>maxDeposit\<close>, or its \<^verbatim>\<open>maxDeposit\<close> is a tier's \<^verbatim>\<open>minDeposit\<close>) is
  rejected with \<open>OverlapError\<close> and the document is left as it was. The tier [50,100]
  against [0,50] and [100,200] is such a candidate.
\<close>

theorem post_tiers_boundary_touch_overlaps:
  assumes "tierBody_valid body" and "body_minDeposit body < body_maxDeposit body"
    and "t \<in> set (bonusTiers settings)"
    and "body_minDeposit body = maxDeposit t \<or> body_maxDeposit body = minDeposit t"
  shows "post_tiers admin body (Some settings) = (Inl OverlapError, Some settings)"
proof -
  from assms(2,4)
  have "(body_minDeposit body \<ge> minDeposit t \<and> body_minDeposit body \<le> maxDeposit t) \<or>
        (body_maxDeposit body \<ge> minDeposit t \<and> body_maxDeposit body \<le> maxDeposit t) \<or>
        (body_minDeposit body \<le> minDeposit t \<and> body_maxDeposit body \<ge> maxDeposit t)"
    by linarith
  with assms(3)
  have "hasOverlap (body_minDeposit body) (body_maxDeposit body) (bonusTiers settings)"
    by (rule hasOverlap_tier)
  with assms(1,2) show ?thesis
    by (rule post_tiers_overlap)
qed

theorem post_tiers_boundary_touch_overlaps_witness:
  "tierBody_valid boundary_body \<and>
   body_minDeposit boundary_body < body_maxDeposit boundary_body \<and>
   body_minDeposit boundary_body = 50 \<and> body_maxDeposit boundary_body = 100 \<and>
   map (\<lambda>t. (minDeposit t, maxDeposit t)) (bonusTiers (the boundary_store))
     = [(0, 50), (100, 200)] \<and>
   post_tiers 1 boundary_body boundary_store = (Inl OverlapError, boundary_store)"
  using post_tiers_boundary_touch_overlaps
    [where body = boundary_body and settings = "the boundary_store" and admin = 1
       and t = "\<lparr>minDeposit = 0, maxDeposit = 50, bonusPercent = 5, isActive = True\<rparr>"]
  by (simp add: boundary_body_def boundary_store_def default_settings_def tierBody_valid_def)

text \<open>
  The claim C2 as the specification states it fails: the request for [50,100] against
  [0,50] and [100,200] is answered with \<open>OverlapError\<close>, not with the extended
  document.
\<close>

theorem post_tiers_boundary_touch_counterexample:
  "fst (post_tiers 1 boundary_body boundary_store) = Inl OverlapError \<and>
   snd (post_tiers 1 boundary_body boundary_store) = boundary_store"
  by (simp add: post_tiers_def getSettings_def hasOverlap_def tierBody_valid_def
      boundary_body_def boundary_store_def default_settings_def)

text \<open>
  C9. The overlap test does not read \<^verbatim>\<open>isActive\<close>: a valid candidate whose inclusive
  range shares a point with the inclusive range of an existing tier is rejected with
  \<open>OverlapError\<close>, and it is rejected just the same after the active flags of the
  existing tiers are set to anything else, for instance all to false.
\<close>

theorem post_tiers_overlap_ignores_isActive:
  assumes "tierBody_valid body" and "body_minDeposit body < body_maxDeposit body"
    and "t \<in> set (bonusTiers settings)"
    and "{body_minDeposit body .. body_maxDeposit body} \<inter> {minDeposit t .. maxDeposit t} \<noteq> {}"
  shows "post_tiers admin body (Some settings) = (Inl OverlapError, Some settings) \<and>
    post_tiers admin body
      (Some (settings\<lparr>bonusTiers := map (\<lambda>t. t\<lparr>isActive := act t\<rparr>) (bonusTiers settings)\<rparr>))
    = (Inl OverlapError,
       Some (settings\<lparr>bonusTiers := map (\<lambda>t. t\<lparr>isActive := act t\<rparr>) (bonusTiers settings)\<rparr>))"
proof -
  from assms(4) obtain x
    where "x \<in> {body_minDeposit body .. body_maxDeposit body} \<inter> {minDeposit t .. maxDeposit t}"
    by blast
  then have "body_minDeposit body \<le> x" "x \<le> body_maxDeposit body"
    "minDeposit t \<le> x" "x \<le> maxDeposit t"
    by simp_all
  then have "body_minDeposit body \<le> maxDeposit t" "minDeposit t \<le> body_maxDeposit body"
    by linarith+
  with assms(3)
  have ov: "hasOverlap (body_minDeposit body) (body_maxDeposit body) (bonusTiers settings)"
    by (rule hasOverlap_intersect)
  then have ov': "hasOverlap (body_minDeposit body) (body_maxDeposit body)
      (bonusTiers (settings\<lparr>bonusTiers := map (\<lambda>t. t\<lparr>isActive := act t\<rparr>) (bonusTiers settings)\<rparr>))"
    by (simp add: hasOverlap_isActive)
  from post_tiers_overlap [OF assms(1,2) ov] post_tiers_overlap [OF assms(1,2) ov']
  show ?thesis by simp
qed

theorem post_tiers_overlap_ignores_isActive_witness:
  "tierBody_valid crossing_body \<and>
   body_minDeposit crossing_body < body_maxDeposit crossing_body \<and>
   list_all (\<lambda>t. \<not> isActive t) (bonusTiers (the inactive_store)) \<and>
   post_tiers 1 crossing_body inactive_store = (Inl OverlapError, inactive_store)"
  using post_tiers_overlap_ignores_isActive
    [where body = crossing_body and settings = "the inactive_store" and admin = 1
       and act = isActive
       and t = "\<lparr>minDeposit = 0, maxDeposit = 50, bonusPercent = 5, isActive = False\<rparr>"]
  by (simp add: crossing_body_def inactive_store_def default_settings_def tierBody_valid_def)

section \<open>Manual balance adjustment\<close>



section \<open>Partial update of the settings\<close>

lemma assignDefined_None: "x = None \<Longrightarrow> assignDefined x prior = prior"
  by (simp add: assignDefined_def)

lemma assignDefined_Some: "x = Some v \<Longrightarrow> assignDefined x prior = v"
  by (simp add: assignDefined_def)

text \<open>
  C8. After \<^verbatim>\<open>PUT /settings\<close> the collection holds a document whose tier list is
  the prior one and in which every scalar field that the request leaves undefined has
  its prior value; the prior document is the stored one, or the default one when the
  collection was empty. When the route succeeds, the document it returns is the stored
  one, each field that the request defines has the request's value, and
  \<^verbatim>\<open>updatedBy\<close> is the admin.
\<close>

theorem put_settings_frame:
  assumes "put_settings admin body store = (res, store')"
  shows "\<exists>s'. store' = Some s' \<and>
    bonusTiers s' = bonusTiers (fst (getSettings store)) \<and>
    (body_isEnabled body = None \<longrightarrow> isEnabled s' = isEnabled (fst (getSettings store))) \<and>
    (body_regularBonusPercent body = None \<longrightarrow>
       regularBonusPercent s' = regularBonusPercent (fst (getSettings store))) \<and>
    (body_firstDepositBonusPercent body = None \<longrightarrow>
       firstDepositBonusPercent s' = firstDepositBonusPercent (fst (getSettings store))) \<and>
    (body_firstDepositBonusEnabled body = None \<longrightarrow>
       firstDepositBonusEnabled s' = firstDepositBonusEnabled (fst (getSettings store))) \<and>
    (body_minDepositForBonus body = None \<longrightarrow>
       minDepositForBonus s' = minDepositForBonus (fst (getSettings store))) \<and>
    (body_maxBonusAmount body = None \<longrightarrow>
       maxBonusAmount s' = maxBonusAmount (fst (getSettings store))) \<and>
    (body_bonusWithdrawable body = None \<longrightarrow>
       bonusWithdrawable s' = bonusWithdrawable (fst (getSettings store))) \<and>
    (body_withdrawalVolumeMultiplier body = None \<longrightarrow>
       withdrawalVolumeMultiplier s' = withdrawalVolumeMultiplier (fst (getSettings store))) \<and>
    (body_bonusExpiryDays body = None \<longrightarrow>
       bonusExpiryDays s' = bonusExpiryDays (fst (getSettings store))) \<and>
    (body_useTierBonus body = None \<longrightarrow>
       useTierBonus s' = useTierBonus (fst (getSettings store))) \<and>
    (\<forall>r. res = Inr r \<longrightarrow>
       r = s' \<and> updatedBy s' = Some admin \<and>
       (\<forall>v. body_isEnabled body = Some v \<longrightarrow> isEnabled s' = v) \<and>
       (\<forall>v. body_regularBonusPercent body = Some v \<longrightarrow> regularBonusPercent s' = v) \<and>
       (\<forall>v. body_firstDepositBonusPercent body = Some v \<longrightarrow> firstDepositBonusPercent s' = v) \<and>
       (\<forall>v. body_firstDepositBonusEnabled body = Some v \<longrightarrow> firstDepositBonusEnabled s' = v) \<and>
       (\<forall>v. body_minDepositForBonus body = Some v \<longrightarrow> minDepositForBonus s' = v) \<and>
       (\<forall>v. body_maxBonusAmount body = Some v \<longrightarrow> maxBonusAmount s' = v) \<and>
       (\<forall>v. body_bonusWithdrawable body = Some v \<longrightarrow> bonusWithdrawable s' = v) \<and>
       (\<forall>v. body_withdrawalVolumeMultiplier body = Some v \<longrightarrow> withdrawalVolumeMultiplier s' = v) \<and>
       (\<forall>v. body_bonusExpiryDays body = Some v \<longrightarrow> bonusExpiryDays s' = v) \<and>
       (\<forall>v. body_useTierBonus body = Some v \<longrightarrow> useTierBonus s' = v))"
proof -
  define prior where "prior = fst (getSettings store)"
  define new where "new = prior
    \<lparr> isEnabled := assignDefined (body_isEnabled body) (isEnabled prior),
      regularBonusPercent :=
        assignDefined (body_regularBonusPercent body) (regularBonusPercent prior),
      firstDepositBonusPercent :=
        assignDefined (body_firstDepositBonusPercent body) (firstDepositBonusPercent prior),
      firstDepositBonusEnabled :=
        assignDefined (body_firstDepositBonusEnabled body) (firstDepositBonusEnabled prior),
      minDepositForBonus :=
        assignDefined (body_minDepositForBonus body) (minDepositForBonus prior),
      maxBonusAmount := assignDefined (body_maxBonusAmount body) (maxBonusAmount prior),
      bonusWithdrawable := assignDefined (body_bonusWithdrawable body) (bonusWithdrawable prior),
      withdrawalVolumeMultiplier :=
        assignDefined (body_withdrawalVolumeMultiplier body) (withdrawalVolumeMultiplier prior),
      bonusExpiryDays := assignDefined (body_bonusExpiryDays body) (bonusExpiryDays prior),
      useTierBonus := assignDefined (body_useTierBonus body) (useTierBonus prior),
      updatedBy := Some admin \<rparr>"
  have gs: "getSettings store = (prior, Some prior)"
    using getSettings_snd [of store] by (simp add: prior_def prod_eq_iff)
  have run: "put_settings admin body store = save new (Some prior)"
    by (simp add: put_settings_def gs new_def)
  show ?thesis
  proof (cases "schema_valid new")
    case True
    with run assms have res: "res = Inr new" and st: "store' = Some new"
      by (simp_all add: save_def)
    show ?thesis
      unfolding prior_def [symmetric] res st
    proof (intro exI [of _ new] conjI allI impI)
      show "Some new = Some new" ..
    qed (auto simp add: new_def assignDefined_None assignDefined_Some)
  next
    case False
    with run assms have res: "res = Inl ServerError" and st: "store' = Some prior"
      by (simp_all add: save_def)
    show ?thesis
      unfolding prior_def [symmetric] res st
      by (intro exI [of _ prior] conjI allI impI) simp_all
  qed
qed

theorem put_settings_frame_witness:
  "body_isEnabled partial_body = Some False \<and>
   body_regularBonusPercent partial_body = Some 12 \<and>
   body_useTierBonus partial_body = None \<and>
   fst (put_settings 4 partial_body (Some tiered_settings))
     = Inr (tiered_settings
         \<lparr>isEnabled := False, regularBonusPercent := 12, updatedBy := Some 4\<rparr>) \<and>
   snd (put_settings 4 partial_body (Some tiered_settings))
     = Some (tiered_settings
         \<lparr>isEnabled := False, regularBonusPercent := 12, updatedBy := Some 4\<rparr>) \<and>
   bonusTiers (the (snd (put_settings 4 partial_body (Some tiered_settings))))
     = bonusTiers tiered_settings \<and>
   useTierBonus (the (snd (put_settings 4 partial_body (Some tiered_settings))))
     = useTierBonus tiered_settings"
proof -
  let ?new = "tiered_settings
    \<lparr>isEnabled := False, regularBonusPercent := 12, updatedBy := Some 4\<rparr>"
  have body: "body_isEnabled partial_body = Some False"
    "body_regularBonusPercent partial_body = Some 12"
    "body_useTierBonus partial_body = None"
    by (simp_all add: partial_body_def)
  have run: "put_settings 4 partial_body (Some tiered_settings) = (Inr ?new, Some ?new)"
    by (simp add: put_settings_def save_def getSettings_def assignDefined_def schema_valid_def
        percent_ok_def partial_body_def tiered_settings_def default_settings_def Let_def)
  from put_settings_frame [OF run] obtain s'
    where s: "Some ?new = Some s'"
      and t: "bonusTiers s' = bonusTiers (fst (getSettings (Some tiered_settings)))"
      and u: "body_useTierBonus partial_body = None \<longrightarrow>
        useTierBonus s' = useTierBonus (fst (getSettings (Some tiered_settings)))"
    by (elim exE conjE)
  from s have s': "s' = ?new" by simp
  from t u body(3)
  have frame: "bonusTiers ?new = bonusTiers tiered_settings"
    "useTierBonus ?new = useTierBonus tiered_settings"
    unfolding s' by (simp_all only: getSettings_stored fst_conv simp_thms)
  have out: "fst (put_settings 4 partial_body (Some tiered_settings)) = Inr ?new"
    "snd (put_settings 4 partial_body (Some tiered_settings)) = Some ?new"
    by (simp_all only: run fst_conv snd_conv)
  from body out frame show ?thesis
    by (simp only: option.sel simp_thms)
qed

end
